theory Spec2Isabelle
  imports Complex_Main "HOL-Library.AList"
begin

section \<open>Values, errors and numpy primitives\<close>

text \<open>
  The package computes on numpy float64 arrays. The embedding reads a float64 as a real
  number (rounding is not modelled) and keeps the values that are not finite reals
  apart: \<open>None\<close> stands for a result that numpy reports as \<open>nan\<close> or \<open>\<plusminus>inf\<close> (the
  logarithm of a non-positive number, a division by zero) and for everything computed
  from such a result. Python exceptions are values of \<open>py_error\<close>.
\<close>

datatype py_error = KeyError | AttributeError | IndexError | ValueError | TypeError

type_synonym float = "real option"

definition np_log :: "real \<Rightarrow> float" where
  "np_log x = (if 0 < x then Some (ln x) else None)"

definition np_exp :: "float \<Rightarrow> float" where
  "np_exp a = map_option exp a"

fun fsub :: "float \<Rightarrow> float \<Rightarrow> float" where
  "fsub (Some a) (Some b) = Some (a - b)"
| "fsub _ _ = None"

fun fadd :: "float \<Rightarrow> float \<Rightarrow> float" where
  "fadd (Some a) (Some b) = Some (a + b)"
| "fadd _ _ = None"

fun fmul :: "float \<Rightarrow> float \<Rightarrow> float" where
  "fmul (Some a) (Some b) = Some (a * b)"
| "fmul _ _ = None"

fun fdiv :: "float \<Rightarrow> float \<Rightarrow> float" where
  "fdiv (Some a) (Some b) = (if b = 0 then None else Some (a / b))"
| "fdiv _ _ = None"

text \<open>\<open>xs[i]\<close> for a Python integer index: a negative index counts from the end.\<close>

definition py_index :: "'a list \<Rightarrow> int \<Rightarrow> py_error + 'a" where
  "py_index xs i =
     (let n = int (length xs) in
      if 0 \<le> i \<and> i < n then Inr (xs ! nat i)
      else if i < 0 \<and> 0 \<le> n + i then Inr (xs ! nat (n + i))
      else Inl IndexError)"

text \<open>\<open>xs[i:]\<close>: a negative start counts from the end and is clamped at 0; \<open>-0\<close> is 0.\<close>

definition py_slice_from :: "int \<Rightarrow> 'a list \<Rightarrow> 'a list" where
  "py_slice_from i xs =
     (let n = int (length xs);
          j = (if i < 0 then max (n + i) 0 else min i n)
      in drop (nat j) xs)"

text \<open>\<open>xs[m]\<close> for a boolean mask \<open>m\<close>: the mask must be as long as the array.\<close>

definition bool_index :: "'a list \<Rightarrow> bool list \<Rightarrow> py_error + 'a list" where
  "bool_index xs msk =
     (if length msk \<noteq> length xs then Inl IndexError
      else Inr (map fst (filter snd (zip xs msk))))"

text \<open>\<open>np.diff\<close> on a one-dimensional array: element \<open>i\<close> is \<open>a[i+1] - a[i]\<close>.\<close>

definition np_diff :: "float list \<Rightarrow> float list" where
  "np_diff a = map (\<lambda>(hi, lo). fsub hi lo) (zip (tl a) a)"

text \<open>\<open>np.clip(a, lo, hi)\<close> is \<open>minimum(maximum(a, lo), hi)\<close>.\<close>

definition np_clip :: "int \<Rightarrow> int \<Rightarrow> int \<Rightarrow> int" where
  "np_clip a lo hi = min (max a lo) hi"

text \<open>
  \<open>np.searchsorted(xs, v)\<close> (side left) on an ascending array: the number of leading
  elements below \<open>v\<close>.
\<close>

definition searchsorted :: "real list \<Rightarrow> real \<Rightarrow> nat" where
  "searchsorted xs v = length (takeWhile (\<lambda>x. x < v) xs)"

text \<open>\<open>min(...)\<close> over a Python iterable raises ValueError when it is empty.\<close>

definition py_min :: "nat list \<Rightarrow> py_error + nat" where
  "py_min ns = (case ns of [] \<Rightarrow> Inl ValueError | n # rest \<Rightarrow> Inr (fold min rest n))"

text \<open>
  \<open>np.column_stack\<close> of one-dimensional arrays: the arrays become the columns of a
  matrix, held here as its list of rows. It needs at least one array, and all of one
  length.
\<close>

definition column_stack :: "'a list list \<Rightarrow> py_error + 'a list list" where
  "column_stack cols =
     (case cols of
        [] \<Rightarrow> Inl ValueError
      | c # rest \<Rightarrow>
          if \<forall>d \<in> set rest. length d = length c
          then Inr (map (\<lambda>i. map (\<lambda>col. col ! i) cols) [0..<length c])
          else Inl ValueError)"

section \<open>The linear interpolant of scipy\<close>

text \<open>
  \<open>interp1d(x, y, kind='linear', fill_value="extrapolate")\<close>. The constructor refuses
  arrays of different lengths, sorts the knots by \<open>x\<close> with a stable sort and refuses
  fewer than \<open>minval\<close> knots. The bound \<open>minval\<close> belongs to the installed library and
  is a parameter here. A call finds the segment of the new point, clipped to the first
  and last segment (which is how the interpolant extrapolates), and evaluates the line
  through the two knots of that segment.
\<close>

record interp1d =
  ix :: "real list"
  iy :: "float list"

definition interp1d_init :: "nat \<Rightarrow> real list \<Rightarrow> float list \<Rightarrow> py_error + interp1d" where
  "interp1d_init minval x y =
     (if length y \<noteq> length x then Inl ValueError
      else let s = sort_key fst (zip x y) in
        if length x < minval then Inl ValueError
        else Inr \<lparr>ix = map fst s, iy = map snd s\<rparr>)"

definition interp1d_call :: "interp1d \<Rightarrow> real \<Rightarrow> py_error + float" where
  "interp1d_call f x_new =
     (let x_new_indices = np_clip (int (searchsorted (ix f) x_new)) 1 (int (length (ix f)) - 1);
          lo = x_new_indices - 1;
          hi = x_new_indices
      in case (py_index (ix f) lo, py_index (ix f) hi, py_index (iy f) lo, py_index (iy f) hi) of
           (Inr x_lo, Inr x_hi, Inr y_lo, Inr y_hi) \<Rightarrow>
             (let slope = fdiv (fsub y_hi y_lo) (Some (x_hi - x_lo))
              in Inr (fadd (fmul slope (Some (x_new - x_lo))) y_lo))
         | _ \<Rightarrow> Inl IndexError)"

section \<open>ForwardCurve\<close>

record ForwardCurve =
  dates :: "real list"
  prices :: "real list"
  interp :: interp1d

definition ForwardCurve_init :: "nat \<Rightarrow> real list \<Rightarrow> real list \<Rightarrow> py_error + ForwardCurve" where
  "ForwardCurve_init minval ds ps =
     (case interp1d_init minval ds (map np_log ps) of
        Inl e \<Rightarrow> Inl e
      | Inr f \<Rightarrow> Inr \<lparr>dates = ds, prices = ps, interp = f\<rparr>)"

definition get_forward :: "ForwardCurve \<Rightarrow> real \<Rightarrow> py_error + float" where
  "get_forward c T =
     (case interp1d_call (interp c) T of
        Inl e \<Rightarrow> Inl e
      | Inr logp \<Rightarrow> Inr (np_exp logp))"

definition log_returns :: "ForwardCurve \<Rightarrow> float list" where
  "log_returns c = np_diff (map np_log (prices c))"

definition slice :: "nat \<Rightarrow> ForwardCurve \<Rightarrow> real \<Rightarrow> real \<Rightarrow> py_error + ForwardCurve" where
  "slice minval c start stop =
     (let msk = map (\<lambda>d. start \<le> d \<and> d \<le> stop) (dates c) in
      case bool_index (dates c) msk of
        Inl e \<Rightarrow> Inl e
      | Inr ds \<Rightarrow>
          (case bool_index (prices c) msk of
             Inl e \<Rightarrow> Inl e
           | Inr ps \<Rightarrow> ForwardCurve_init minval ds ps))"

section \<open>Market\<close>

text \<open>
  A Python dict keeps its keys in insertion order; it is an association list here.
  \<open>d[k] = v\<close> is \<open>AList.update\<close> (an existing key keeps its place), \<open>d.get(k)\<close> is
  \<open>map_of\<close>, \<open>d[k]\<close> raises KeyError on a missing key and \<open>d.values()\<close> is \<open>map snd\<close>.
\<close>

type_synonym ('k, 'v) dict = "('k \<times> 'v) list"

definition dict_getitem :: "('k, 'v) dict \<Rightarrow> 'k \<Rightarrow> py_error + 'v" where
  "dict_getitem d key = (case map_of d key of None \<Rightarrow> Inl KeyError | Some v \<Rightarrow> Inr v)"

definition dict_values :: "('k, 'v) dict \<Rightarrow> 'v list" where
  "dict_values d = map snd d"

record Market =
  name :: string
  region :: "string option"
  commodity :: string
  curves :: "(string, ForwardCurve) dict"

definition Market_init :: "string \<Rightarrow> string option \<Rightarrow> string \<Rightarrow> Market" where
  "Market_init nm rg cm = \<lparr>name = nm, region = rg, commodity = cm, curves = []\<rparr>"

definition add_forward_curve :: "Market \<Rightarrow> string \<Rightarrow> ForwardCurve \<Rightarrow> Market" where
  "add_forward_curve m curve_name forward_curve =
     m\<lparr>curves := AList.update curve_name forward_curve (curves m)\<rparr>"

text \<open>\<open>get_curve\<close> answers Python's \<open>None\<close> for a name that is not there.\<close>

definition get_curve :: "Market \<Rightarrow> string \<Rightarrow> ForwardCurve option" where
  "get_curve m curve_name = map_of (curves m) curve_name"

definition list_curves :: "Market \<Rightarrow> string list" where
  "list_curves m = map fst (curves m)"

section \<open>Volatility models\<close>

text \<open>
  \<open>sigma\<close> answers a numpy scalar for the exponential model and a one-dimensional
  array for the multi-factor model; the caller tells them apart with \<open>isinstance\<close>.
\<close>

datatype sigma_value = Scalar real | Vector "real list"

datatype VolatilityModel =
    ExponentialVolatilityModel (gamma: real) (k: real)
  | MultiFactorVolatilityModel (n_factors: int)
      (components: "real list list option") (explained_variance: "real list option")

definition MultiFactorVolatilityModel_init :: "int \<Rightarrow> VolatilityModel" where
  "MultiFactorVolatilityModel_init n = MultiFactorVolatilityModel n None None"

fun sigma :: "VolatilityModel \<Rightarrow> real \<Rightarrow> real \<Rightarrow> sigma_value" where
  "sigma (ExponentialVolatilityModel g kk) t T =
     (let tau = T - t in Scalar (g * exp (- kk * tau)))"
| "sigma (MultiFactorVolatilityModel n cs ev) t T =
     (let tau = T - t in Vector (replicate (nat n) (exp (- 0.5 * tau))))"

text \<open>
  The principal component analysis is sklearn's; \<open>fit n X\<close> stands for
  \<open>PCA(n_components=n).fit(X)\<close> and answers either the exception it raises or the
  pair \<open>(components_, explained_variance_ratio_)\<close>.
\<close>

type_synonym pca_fit = "int \<Rightarrow> float list list \<Rightarrow> py_error + (real list list \<times> real list)"

text \<open>
  \<open>vol_model.calibrate(mat)\<close> with one positional argument. The exponential model's
  \<open>calibrate\<close> takes two arrays, so the call raises TypeError before its body runs.
  The result is the exception raised, if any, and the model after the call.
\<close>

fun calibrate_1 :: "pca_fit \<Rightarrow> VolatilityModel \<Rightarrow> float list list \<Rightarrow> py_error option \<times> VolatilityModel" where
  "calibrate_1 fit (ExponentialVolatilityModel g kk) log_return_matrix =
     (Some TypeError, ExponentialVolatilityModel g kk)"
| "calibrate_1 fit (MultiFactorVolatilityModel n cs ev) log_return_matrix =
     (case fit n log_return_matrix of
        Inl e \<Rightarrow> (Some e, MultiFactorVolatilityModel n cs ev)
      | Inr (comps, ratio) \<Rightarrow> (None, MultiFactorVolatilityModel n (Some comps) (Some ratio)))"

section \<open>HJMModel\<close>

record HJMModel =
  vol_model :: VolatilityModel
  markets :: "(string, Market) dict"

definition HJMModel_init :: "VolatilityModel \<Rightarrow> HJMModel" where
  "HJMModel_init volatility_model = \<lparr>vol_model = volatility_model, markets = []\<rparr>"

definition add_market :: "HJMModel \<Rightarrow> Market \<Rightarrow> HJMModel" where
  "add_market s market = s\<lparr>markets := AList.update (name market) market (markets s)\<rparr>"

text \<open>The two nested loops of \<open>calibrate\<close> that fill the list \<open>returns\<close>.\<close>

definition collect_returns :: "HJMModel \<Rightarrow> float list list" where
  "collect_returns s =
     concat (map (\<lambda>market.
       concat (map (\<lambda>curve. if 1 < length (prices curve) then [log_returns curve] else [])
                   (dict_values (curves market))))
       (dict_values (markets s)))"

text \<open>The matrix handed to the volatility model: \<open>min_len\<close>, the slices, the stacking.\<close>

definition calibration_matrix :: "HJMModel \<Rightarrow> py_error + float list list" where
  "calibration_matrix s =
     (let returns = collect_returns s in
      case py_min (map length returns) of
        Inl e \<Rightarrow> Inl e
      | Inr min_len \<Rightarrow> column_stack (map (py_slice_from (- int min_len)) returns))"

text \<open>
  \<open>calibrate\<close> answers the exception raised, if any, and the model after the call.
  The final \<open>print\<close> writes to standard output and is left out.
\<close>

definition calibrate :: "pca_fit \<Rightarrow> HJMModel \<Rightarrow> py_error option \<times> HJMModel" where
  "calibrate fit s =
     (case calibration_matrix s of
        Inl e \<Rightarrow> (Some e, s)
      | Inr mat \<Rightarrow>
          (case calibrate_1 fit (vol_model s) mat of
             (err, vm) \<Rightarrow> (err, s\<lparr>vol_model := vm\<rparr>)))"

definition forward_dynamics :: "HJMModel \<Rightarrow> string \<Rightarrow> string \<Rightarrow> real \<Rightarrow> real \<Rightarrow> py_error + float" where
  "forward_dynamics s market_name curve_name t0 t1 =
     (case dict_getitem (markets s) market_name of
        Inl e \<Rightarrow> Inl e
      | Inr market \<Rightarrow>
          (case get_curve market curve_name of
             None \<Rightarrow> Inl AttributeError
           | Some curve \<Rightarrow>
               (case py_index (dates curve) (- 1) of
                  Inl e \<Rightarrow> Inl e
                | Inr T \<Rightarrow>
                    (let sg = sigma (vol_model s) t0 T;
                         var = (case sg of
                                  Vector v \<Rightarrow> sum_list (map (\<lambda>x. x\<^sup>2) v) * (t1 - t0)
                                | Scalar x \<Rightarrow> x\<^sup>2 * (t1 - t0))
                     in case get_forward curve T of
                          Inl e \<Rightarrow> Inl e
                        | Inr F0 \<Rightarrow>
                            (let drift = - 0.5 * var
                             in Inr (fmul F0 (Some (exp drift))))))))"

definition price_forward :: "HJMModel \<Rightarrow> string \<Rightarrow> string \<Rightarrow> real \<Rightarrow> py_error + float" where
  "price_forward s market_name curve_name t =
     (case dict_getitem (markets s) market_name of
        Inl e \<Rightarrow> Inl e
      | Inr market \<Rightarrow>
          (case get_curve market curve_name of
             None \<Rightarrow> Inl AttributeError
           | Some curve \<Rightarrow>
               (case py_index (dates curve) (- 1) of
                  Inl e \<Rightarrow> Inl e
                | Inr T \<Rightarrow> get_forward curve T)))"

section \<open>Auxiliary definitions for the properties\<close>

text \<open>\<open>np.cumsum\<close>, used to state that the log returns rebuild the prices.\<close>

fun cumsum_from :: "float \<Rightarrow> float list \<Rightarrow> float list" where
  "cumsum_from acc [] = []"
| "cumsum_from acc (x # xs) = fadd acc x # cumsum_from (fadd acc x) xs"

definition np_cumsum :: "float list \<Rightarrow> float list" where
  "np_cumsum xs = (case xs of [] \<Rightarrow> [] | x # rest \<Rightarrow> x # cumsum_from x rest)"

text \<open>
  The end-to-end example: one market \<open>Gas\<close> with one curve over the maturities
  1 to 5, and a second market whose two curves have three points and one point.
\<close>

definition gas_curve :: ForwardCurve where
  "gas_curve = \<lparr>dates = [1, 2, 3, 4, 5], prices = [3, 3.1, 3.05, 3.2, 3.3],
                interp = \<lparr>ix = [1, 2, 3, 4, 5], iy = map np_log [3, 3.1, 3.05, 3.2, 3.3]\<rparr>\<rparr>"

definition gas_market :: Market where
  "gas_market = add_forward_curve (Market_init ''Gas'' None ''gas'') ''front'' gas_curve"

definition gas_model :: HJMModel where
  "gas_model = add_market (HJMModel_init (ExponentialVolatilityModel 0.1 0)) gas_market"

definition power_curve :: ForwardCurve where
  "power_curve = \<lparr>dates = [1, 2, 3], prices = [50, 52, 51],
                  interp = \<lparr>ix = [1, 2, 3], iy = map np_log [50, 52, 51]\<rparr>\<rparr>"

definition spot_curve :: ForwardCurve where
  "spot_curve = \<lparr>dates = [1], prices = [48], interp = \<lparr>ix = [1], iy = map np_log [48]\<rparr>\<rparr>"

definition power_market :: Market where
  "power_market =
     add_forward_curve
       (add_forward_curve (Market_init ''Power'' (Some ''FR'') ''electricity'') ''cal'' power_curve)
       ''spot'' spot_curve"

definition two_market_model :: HJMModel where
  "two_market_model =
     add_market (add_market (HJMModel_init (MultiFactorVolatilityModel_init 2)) gas_market)
       power_market"

text \<open>Two stand-ins for the fitted analysis: one that raises and one that answers.\<close>

definition failing_pca :: pca_fit where
  "failing_pca n X = Inl ValueError"

definition flat_pca :: pca_fit where
  "flat_pca n X = Inr ([[1, 0], [0, 1]], [0.75, 0.25])"

section \<open>Float64 rounding\<close>

text \<open>
  The exact reconstruction of the prices from the log returns depends on rounding, so
  the operations involved are given a second time with it: each one is the exact
  result rounded to the nearest double, ties to even. Only the normal range of
  positive and negative doubles is modelled (no overflow, no subnormals), and the
  library's \<open>log\<close> and \<open>exp\<close> are taken as correctly rounded.
\<close>

definition rne :: "real \<Rightarrow> int" where
  "rne y =
     (let f = \<lfloor>y\<rfloor>; r = y - of_int f
      in if r < 1 / 2 then f else if 1 / 2 < r then f + 1 else if even f then f else f + 1)"

definition round64 :: "real \<Rightarrow> real" where
  "round64 x =
     (if x = 0 then 0
      else let q = 2 powr (of_int \<lfloor>log 2 \<bar>x\<bar>\<rfloor> - 52) in of_int (rne (x / q)) * q)"

definition fl_log :: "real \<Rightarrow> real" where
  "fl_log x = round64 (ln x)"

definition fl_exp :: "real \<Rightarrow> real" where
  "fl_exp x = round64 (exp x)"

definition fl_sub :: "real \<Rightarrow> real \<Rightarrow> real" where
  "fl_sub a b = round64 (a - b)"

definition fl_add :: "real \<Rightarrow> real \<Rightarrow> real" where
  "fl_add a b = round64 (a + b)"

definition fl_diff :: "real list \<Rightarrow> real list" where
  "fl_diff a = map (\<lambda>(hi, lo). fl_sub hi lo) (zip (tl a) a)"

fun fl_cumsum_from :: "real \<Rightarrow> real list \<Rightarrow> real list" where
  "fl_cumsum_from acc [] = []"
| "fl_cumsum_from acc (x # xs) = fl_add acc x # fl_cumsum_from (fl_add acc x) xs"

definition fl_cumsum :: "real list \<Rightarrow> real list" where
  "fl_cumsum xs = (case xs of [] \<Rightarrow> [] | x # rest \<Rightarrow> x # fl_cumsum_from x rest)"

text \<open>\<open>log_returns\<close> and the reconstruction of the prices, in rounded arithmetic.\<close>

definition log_returns64 :: "ForwardCurve \<Rightarrow> real list" where
  "log_returns64 c = fl_diff (map fl_log (prices c))"

definition reconstruct64 :: "ForwardCurve \<Rightarrow> real list" where
  "reconstruct64 c = map fl_exp (fl_cumsum (fl_log (prices c ! 0) # log_returns64 c))"

text \<open>
  Terms and partial sums of the exponential series, and an enclosure of both between
  rationals, to bound \<open>exp\<close> at a rational point; \<open>L50\<close> is the double nearest to
  \<open>ln 50\<close> and \<open>x50\<close> is a quarter of it.
\<close>

fun texp :: "real \<Rightarrow> nat \<Rightarrow> real" where
  "texp x 0 = 1"
| "texp x (Suc j) = texp x j * x / real (Suc j)"

fun sexp :: "real \<Rightarrow> nat \<Rightarrow> real" where
  "sexp x 0 = 0"
| "sexp x (Suc n) = sexp x n + texp x n"

definition enc :: "real \<Rightarrow> nat \<Rightarrow> real \<Rightarrow> real \<Rightarrow> real \<Rightarrow> real \<Rightarrow> bool" where
  "enc x j lt ut ls us \<longleftrightarrow>
     0 \<le> lt \<and> lt \<le> texp x j \<and> texp x j \<le> ut \<and> ls \<le> sexp x j \<and> sexp x j \<le> us"

definition x50 :: real where
  "x50 = 8809092674755503 / 2 ^ 53"

definition L50 :: real where
  "L50 = 8809092674755503 / 2 ^ 51"

section \<open>Facts about the primitives\<close>

lemma py_index_last: "xs \<noteq> [] \<Longrightarrow> py_index xs (- 1) = Inr (last xs)"
proof -
  assume ne: "xs \<noteq> []"
  then have "nat (int (length xs) - 1) = length xs - 1" by simp
  with ne show ?thesis by (simp add: py_index_def Let_def last_conv_nth)
qed

lemma np_diff_Cons2: "np_diff (a # b # xs) = fsub b a # np_diff (b # xs)"
  by (simp add: np_diff_def)

lemma length_np_diff: "length (np_diff xs) = length xs - 1"
  by (simp add: np_diff_def)

lemma np_diff_nth: "Suc i < length xs \<Longrightarrow> np_diff xs ! i = fsub (xs ! Suc i) (xs ! i)"
  by (simp add: np_diff_def nth_tl)

lemma cumsum_diff: "\<forall>p \<in> set (q # ps). 0 < p \<Longrightarrow>
   map np_exp (cumsum_from (np_log q) (np_diff (map np_log (q # ps)))) = map Some ps"
proof (induction ps arbitrary: q)
  case Nil
  then show ?case by (simp add: np_diff_def)
next
  case (Cons p ps)
  have "fadd (np_log q) (fsub (np_log p) (np_log q)) = np_log p"
    using Cons.prems by (simp add: np_log_def)
  moreover have "np_exp (np_log p) = Some p" using Cons.prems by (simp add: np_log_def np_exp_def)
  ultimately show ?case using Cons.IH[of p] Cons.prems
    by (simp add: np_diff_Cons2)
qed

lemma bool_index_self: "bool_index xs (map P xs) = Inr (filter P xs)"
  unfolding bool_index_def
  by (induction xs) auto

lemma bool_index_other:
  "length ys = length xs \<Longrightarrow>
   bool_index ys (map P xs) = Inr (map snd (filter (\<lambda>(x, y). P x) (zip xs ys)))"
  unfolding bool_index_def
  by (induction xs ys rule: list_induct2') auto

lemma length_filter_zip_fst:
  "length ys = length xs \<Longrightarrow> length (filter (\<lambda>(x, y). P x) (zip xs ys)) = length (filter P xs)"
  by (induction xs ys rule: list_induct2') auto

lemma map_fst_filter_zip:
  "length ys = length xs \<Longrightarrow> map fst (filter (\<lambda>(x, y). P x) (zip xs ys)) = filter P xs"
  by (induction xs ys rule: list_induct2') auto

lemma ForwardCurve_init_cases:
  "ForwardCurve_init mv ds ps =
     (if length ps \<noteq> length ds \<or> length ds < mv then Inl ValueError
      else Inr \<lparr>dates = ds, prices = ps,
                interp = \<lparr>ix = map fst (sort_key fst (zip ds (map np_log ps))),
                           iy = map snd (sort_key fst (zip ds (map np_log ps)))\<rparr>\<rparr>)"
  by (simp add: ForwardCurve_init_def interp1d_init_def Let_def)

lemma searchsorted_knot:
  "sorted_wrt (<) xs \<Longrightarrow> m < length xs \<Longrightarrow> searchsorted xs (xs ! m) = m"
proof (induction xs arbitrary: m)
  case Nil
  then show ?case by simp
next
  case (Cons a xs)
  show ?case
  proof (cases m)
    case 0
    then show ?thesis by (simp add: searchsorted_def)
  next
    case (Suc j)
    with Cons.prems have "a < xs ! j" "j < length xs" "sorted_wrt (<) xs" by auto
    with Cons.IH[of j] Suc show ?thesis by (simp add: searchsorted_def)
  qed
qed

lemma py_index_nat: "i < length xs \<Longrightarrow> py_index xs (int i) = Inr (xs ! i)"
  by (simp add: py_index_def)

lemma interp1d_call_knot:
  assumes srt: "sorted_wrt (<) (ix f)"
    and len: "length (iy f) = length (ix f)" "2 \<le> length (ix f)"
    and fin: "\<And>i. i < length (iy f) \<Longrightarrow> iy f ! i = Some (ys ! i)"
    and m: "m < length (ix f)"
  shows "interp1d_call f (ix f ! m) = Inr (Some (ys ! m))"
proof (cases m)
  case 0
  have idx: "np_clip (int (searchsorted (ix f) (ix f ! m))) 1 (int (length (ix f)) - 1) = 1"
    using searchsorted_knot[OF srt m] len 0 by (simp add: np_clip_def)
  have px: "py_index (ix f) 0 = Inr (ix f ! 0)" "py_index (ix f) 1 = Inr (ix f ! 1)"
       "py_index (iy f) 0 = Inr (iy f ! 0)" "py_index (iy f) 1 = Inr (iy f ! 1)"
    using len by (auto simp: py_index_def Let_def)
  have "0 < length (iy f)" "1 < length (iy f)" using len by linarith+
  then have yv: "iy f ! 0 = Some (ys ! 0)" "iy f ! 1 = Some (ys ! 1)" by (simp_all add: fin)
  have lt: "ix f ! 0 < ix f ! 1" using srt len by (simp add: sorted_wrt_iff_nth_less)
  show ?thesis
    unfolding interp1d_call_def idx Let_def using 0 px yv lt by simp
next
  case (Suc j)
  have idx: "np_clip (int (searchsorted (ix f) (ix f ! m))) 1 (int (length (ix f)) - 1) = int m"
    using searchsorted_knot[OF srt m] m Suc by (simp add: np_clip_def)
  have m1: "int m - 1 = int j" using Suc by simp
  have jl: "j < length (ix f)" "m < length (ix f)" "j < length (iy f)" "m < length (iy f)"
    using len m Suc by linarith+
  have px: "py_index (ix f) (int j) = Inr (ix f ! j)" "py_index (ix f) (int m) = Inr (ix f ! m)"
       "py_index (iy f) (int j) = Inr (iy f ! j)" "py_index (iy f) (int m) = Inr (iy f ! m)"
    using jl by (simp_all add: py_index_nat)
  from jl have yv: "iy f ! j = Some (ys ! j)" "iy f ! m = Some (ys ! m)" by (simp_all add: fin)
  have lt: "ix f ! j < ix f ! m" using srt m Suc by (simp add: sorted_wrt_iff_nth_less)
  show ?thesis
    unfolding interp1d_call_def idx m1 Let_def using px yv lt by simp
qed

lemma sorted_knots_strict:
  assumes "distinct (map fst zs)"
  shows "sorted_wrt (<) (map fst (sort_key fst zs))"
proof -
  have "distinct (map fst (sort_key fst zs))"
    using assms by (simp add: distinct_map)
  moreover have "sorted (map fst (sort_key fst zs))" by (rule sorted_sort_key)
  ultimately show ?thesis by (simp add: strict_sorted_iff)
qed

lemma strictly_monotonic_distinct:
  fixes ds :: "real list"
  assumes "sorted_wrt (<) ds \<or> sorted_wrt (>) ds"
  shows "distinct ds"
proof -
  from assms consider "sorted_wrt (<) ds" | "sorted_wrt (<) (rev ds)"
    by (auto simp: sorted_wrt_rev)
  then show ?thesis
  proof cases
    case 1 then show ?thesis by (simp add: strict_sorted_iff)
  next
    case 2 then have "distinct (rev ds)" by (simp only: strict_sorted_iff)
    then show ?thesis by simp
  qed
qed

lemma get_forward_knot:
  assumes built: "ForwardCurve_init mv ds ps = Inr c"
    and n2: "2 \<le> length ds"
    and pos: "\<forall>p \<in> set ps. 0 < p"
    and dist: "distinct ds"
    and i: "i < length ds"
  shows "get_forward c (ds ! i) = Inr (Some (ps ! i))"
proof -
  let ?zs = "zip ds (map np_log ps)"
  let ?S = "sort_key fst ?zs"
  let ?f = "\<lparr>ix = map fst ?S, iy = map snd ?S\<rparr>"
  from built have len: "length ps = length ds"
    and c: "c = \<lparr>dates = ds, prices = ps, interp = ?f\<rparr>"
    by (auto simp: ForwardCurve_init_cases split: if_splits)
  have fst_zs: "map fst ?zs = ds" using len by simp
  have srt: "sorted_wrt (<) (ix ?f)"
    using sorted_knots_strict[of ?zs] dist fst_zs by simp
  have lenS: "length ?S = length ds" using len by simp
  have "(ds ! i, np_log (ps ! i)) \<in> set ?zs"
    using i len by (auto simp: set_zip)
  then have "(ds ! i, np_log (ps ! i)) \<in> set ?S" by simp
  then obtain m where m: "m < length ?S" "?S ! m = (ds ! i, np_log (ps ! i))"
    by (metis in_set_conv_nth)
  have pi: "0 < ps ! i" using pos i len by simp
  have fin: "iy ?f ! j = Some (map (\<lambda>z. the (snd z)) ?S ! j)" if "j < length (iy ?f)" for j
  proof -
    from that have j: "j < length ?S" by simp
    then have "?S ! j \<in> set ?zs" by (metis nth_mem set_sort)
    then have "snd (?S ! j) \<in> set (map np_log ps)"
      by (metis set_zip_rightD prod.collapse)
    then obtain p where "p \<in> set ps" "snd (?S ! j) = np_log p"
      by auto
    then have "snd (?S ! j) = Some (ln p)" using pos by (simp add: np_log_def)
    then show ?thesis using j by simp
  qed
  have "interp1d_call ?f (ix ?f ! m) = Inr (Some (map (\<lambda>z. the (snd z)) ?S ! m))"
  proof (rule interp1d_call_knot[OF srt])
    show "length (iy ?f) = length (ix ?f)" by simp
    show "2 \<le> length (ix ?f)" using n2 lenS by simp
    show "m < length (ix ?f)" using m by simp
  qed (rule fin)
  moreover have "ix ?f ! m = ds ! i" using m by simp
  moreover have "map (\<lambda>z. the (snd z)) ?S ! m = ln (ps ! i)"
    using m pi by (simp add: np_log_def)
  ultimately have "interp1d_call ?f (ds ! i) = Inr (Some (ln (ps ! i)))" by simp
  then show ?thesis using pi by (simp add: get_forward_def c np_exp_def)
qed

lemma concat_map_if: "concat (map (\<lambda>x. if P x then [f x] else []) xs) = map f (filter P xs)"
  by (induction xs) auto

lemma collect_returns_eq:
  "collect_returns s =
     map log_returns (filter (\<lambda>c. 2 \<le> length (prices c))
       (concat (map (\<lambda>m. dict_values (curves m)) (dict_values (markets s)))))"
proof -
  have P: "(\<lambda>c::ForwardCurve. 1 < length (prices c)) = (\<lambda>c. 2 \<le> length (prices c))"
    by (rule ext) auto
  show ?thesis
    unfolding collect_returns_def concat_map_if P
    by (simp add: map_concat filter_concat comp_def)
qed

lemma collect_returns_nonempty:
  "r \<in> set (collect_returns s) \<Longrightarrow> 1 \<le> length r"
  unfolding collect_returns_eq
  by (auto simp: log_returns_def length_np_diff)

lemma py_min_Min: "ns \<noteq> [] \<Longrightarrow> py_min ns = Inr (Min (set ns))"
  by (cases ns) (simp_all add: py_min_def Min.set_eq_fold[symmetric])

lemma py_slice_trailing:
  "1 \<le> n \<Longrightarrow> n \<le> length r \<Longrightarrow> py_slice_from (- int n) r = drop (length r - n) r"
  by (simp add: py_slice_from_def Let_def nat_diff_distrib' max_def)

lemma column_stack_equal:
  assumes "cols \<noteq> []" "\<forall>c \<in> set cols. length c = n"
  shows "column_stack cols = Inr (map (\<lambda>i. map (\<lambda>col. col ! i) cols) [0..<n])"
  using assms by (cases cols) (auto simp: column_stack_def)

lemma column_of_stack:
  assumes "j < length cols" "length (cols ! j) = n"
  shows "map (\<lambda>row. row ! j) (map (\<lambda>i. map (\<lambda>col. col ! i) cols) [0..<n]) = cols ! j"
proof -
  have "map (\<lambda>row. row ! j) (map (\<lambda>i. map (\<lambda>col. col ! i) cols) [0..<n])
        = map (\<lambda>i. cols ! j ! i) [0..<n]"
    using assms(1) by simp
  also have "\<dots> = cols ! j" using assms(2) map_nth[of "cols ! j"] by simp
  finally show ?thesis .
qed

section \<open>Rounding of the logarithm and the exponential at 50\<close>

lemma texp_eq: "texp x j = x ^ j / fact j"
proof (induction j)
  case 0
  show ?case by simp
next
  case (Suc j)
  have "texp x (Suc j) = (x ^ j / fact j) * x / real (Suc j)" using Suc by simp
  also have "\<dots> = x ^ Suc j / (fact j * real (Suc j))" by simp
  also have "fact j * real (Suc j) = fact (Suc j)" by (simp add: algebra_simps)
  finally show ?case .
qed

lemma sexp_eq: "sexp x n = (\<Sum>m<n. x ^ m / fact m)"
  by (induction n) (simp_all add: texp_eq)

lemma exp_enclosure:
  assumes "0 \<le> x" "x \<le> 1"
  shows "sexp x n \<le> exp x \<and> exp x \<le> sexp x n + 3 * texp x n"
proof -
  obtain t where t: "\<bar>t\<bar> \<le> \<bar>x\<bar>"
      "exp x = (\<Sum>m<n. x ^ m / fact m) + (exp t / fact n) * x ^ n"
    using Maclaurin_exp_le[of x n] by blast
  have "t \<le> 1" using t(1) assms by linarith
  then have "exp t \<le> exp 1" by simp
  then have e3: "exp t \<le> 3" using exp_le by linarith
  have xn: "0 \<le> x ^ n / fact n" using assms by simp
  have r: "(exp t / fact n) * x ^ n = exp t * (x ^ n / fact n)" by simp
  have "0 \<le> exp t * (x ^ n / fact n)"
    using xn by (intro mult_nonneg_nonneg) simp_all
  moreover have "exp t * (x ^ n / fact n) \<le> 3 * (x ^ n / fact n)"
    using e3 xn by (rule mult_right_mono)
  ultimately show ?thesis
    unfolding sexp_eq texp_eq t(2) r by simp
qed

lemma enc_0: "enc x 0 1 1 0 0"
  by (simp add: enc_def)

lemma enc_step:
  assumes "enc x j lt ut ls us" and "j' = Suc j" and "0 \<le> x" and "0 \<le> lt'"
    and "lt' \<le> lt * x / real j'" and "ut * x / real j' \<le> ut'"
    and "ls' \<le> ls + lt" and "us + ut \<le> us'"
  shows "enc x j' lt' ut' ls' us'"
proof -
  from assms(1) have b: "0 \<le> lt" "lt \<le> texp x j" "texp x j \<le> ut"
      "ls \<le> sexp x j" "sexp x j \<le> us"
    by (simp_all add: enc_def)
  have c: "0 \<le> x / real j'" using assms(2,3) by simp
  have "lt * (x / real j') \<le> texp x j * (x / real j')"
    using b(2) c by (rule mult_right_mono)
  moreover have "texp x j * (x / real j') \<le> ut * (x / real j')"
    using b(3) c by (rule mult_right_mono)
  ultimately have "lt' \<le> texp x j'" "texp x j' \<le> ut'"
    using assms(2,5,6) by simp_all
  moreover have "ls' \<le> sexp x j'" "sexp x j' \<le> us'"
    using assms(2,7,8) b by simp_all
  ultimately show ?thesis using assms(4) by (simp add: enc_def)
qed

lemma enc_x50_0: "enc x50 0 1 1 0 0"
  by (rule enc_0)

lemma enc_x50_1: "enc x50 1 (1239769577734407788331987369984 / 1267650600228229401496703205376) (1239769577734407788331987369984 / 1267650600228229401496703205376) (1267650600228229401496703205376 / 1267650600228229401496703205376) (1267650600228229401496703205376 / 1267650600228229401496703205376)"
  by (rule enc_step[OF enc_x50_0]) (simp_all add: x50_def)

lemma enc_x50_2: "enc x50 2 (606250888690867673137037724867 / 1267650600228229401496703205376) (606250888690867673137037724868 / 1267650600228229401496703205376) (2507420177962637189828690575360 / 1267650600228229401496703205376) (2507420177962637189828690575360 / 1267650600228229401496703205376)"
  by (rule enc_step[OF enc_x50_1]) (simp_all add: x50_def)

lemma enc_x50_3: "enc x50 3 (197638951968327711664749521212 / 1267650600228229401496703205376) (197638951968327711664749521213 / 1267650600228229401496703205376) (3113671066653504862965728300227 / 1267650600228229401496703205376) (3113671066653504862965728300228 / 1267650600228229401496703205376)"
  by (rule enc_step[OF enc_x50_2]) (simp_all add: x50_def)

lemma enc_x50_4: "enc x50 4 (48323007929300397400197898470 / 1267650600228229401496703205376) (48323007929300397400197898471 / 1267650600228229401496703205376) (3311310018621832574630477821439 / 1267650600228229401496703205376) (3311310018621832574630477821441 / 1267650600228229401496703205376)"
  by (rule enc_step[OF enc_x50_3]) (simp_all add: x50_def)

lemma enc_x50_5: "enc x50 5 (9452035935545493442310909053 / 1267650600228229401496703205376) (9452035935545493442310909054 / 1267650600228229401496703205376) (3359633026551132972030675719909 / 1267650600228229401496703205376) (3359633026551132972030675719912 / 1267650600228229401496703205376)"
  by (rule enc_step[OF enc_x50_4]) (simp_all add: x50_def)

lemma enc_x50_6: "enc x50 6 (1540690917832813274083327420 / 1267650600228229401496703205376) (1540690917832813274083327421 / 1267650600228229401496703205376) (3369085062486678465472986628962 / 1267650600228229401496703205376) (3369085062486678465472986628966 / 1267650600228229401496703205376)"
  by (rule enc_step[OF enc_x50_5]) (simp_all add: x50_def)

lemma enc_x50_7: "enc x50 7 (215257796957720388052504630 / 1267650600228229401496703205376) (215257796957720388052504631 / 1267650600228229401496703205376) (3370625753404511278747069956382 / 1267650600228229401496703205376) (3370625753404511278747069956387 / 1267650600228229401496703205376)"
  by (rule enc_step[OF enc_x50_6]) (simp_all add: x50_def)

lemma enc_x50_8: "enc x50 8 (26315420431136966460238028 / 1267650600228229401496703205376) (26315420431136966460238029 / 1267650600228229401496703205376) (3370841011201468999135122461012 / 1267650600228229401496703205376) (3370841011201468999135122461018 / 1267650600228229401496703205376)"
  by (rule enc_step[OF enc_x50_7]) (simp_all add: x50_def)

lemma enc_x50_9: "enc x50 9 (2859625836781157557333273 / 1267650600228229401496703205376) (2859625836781157557333274 / 1267650600228229401496703205376) (3370867326621900136101582699040 / 1267650600228229401496703205376) (3370867326621900136101582699047 / 1267650600228229401496703205376)"
  by (rule enc_step[OF enc_x50_8]) (simp_all add: x50_def)

lemma enc_x50_10: "enc x50 10 (279673051510115019159363 / 1267650600228229401496703205376) (279673051510115019159364 / 1267650600228229401496703205376) (3370870186247736917259140032313 / 1267650600228229401496703205376) (3370870186247736917259140032321 / 1267650600228229401496703205376)"
  by (rule enc_step[OF enc_x50_9]) (simp_all add: x50_def)

lemma enc_x50_11: "enc x50 11 (24865622988769564375222 / 1267650600228229401496703205376) (24865622988769564375223 / 1267650600228229401496703205376) (3370870465920788427374159191676 / 1267650600228229401496703205376) (3370870465920788427374159191685 / 1267650600228229401496703205376)"
  by (rule enc_step[OF enc_x50_10]) (simp_all add: x50_def)

lemma enc_x50_12: "enc x50 12 (2026560191174364760965 / 1267650600228229401496703205376) (2026560191174364760966 / 1267650600228229401496703205376) (3370870490786411416143723566898 / 1267650600228229401496703205376) (3370870490786411416143723566908 / 1267650600228229401496703205376)"
  by (rule enc_step[OF enc_x50_11]) (simp_all add: x50_def)

lemma enc_x50_13: "enc x50 13 (152460578649211085988 / 1267650600228229401496703205376) (152460578649211085990 / 1267650600228229401496703205376) (3370870492812971607318088327863 / 1267650600228229401496703205376) (3370870492812971607318088327874 / 1267650600228229401496703205376)"
  by (rule enc_step[OF enc_x50_12]) (simp_all add: x50_def)

lemma enc_x50_14: "enc x50 14 (10650523055296445971 / 1267650600228229401496703205376) (10650523055296445972 / 1267650600228229401496703205376) (3370870492965432185967299413851 / 1267650600228229401496703205376) (3370870492965432185967299413864 / 1267650600228229401496703205376)"
  by (rule enc_step[OF enc_x50_13]) (simp_all add: x50_def)

lemma enc_x50_15: "enc x50 15 (694418186869376036 / 1267650600228229401496703205376) (694418186869376037 / 1267650600228229401496703205376) (3370870492976082709022595859822 / 1267650600228229401496703205376) (3370870492976082709022595859836 / 1267650600228229401496703205376)"
  by (rule enc_step[OF enc_x50_14]) (simp_all add: x50_def)

lemma enc_x50_16: "enc x50 16 (42446561287823442 / 1267650600228229401496703205376) (42446561287823443 / 1267650600228229401496703205376) (3370870492976777127209465235858 / 1267650600228229401496703205376) (3370870492976777127209465235873 / 1267650600228229401496703205376)"
  by (rule enc_step[OF enc_x50_15]) (simp_all add: x50_def)

lemma enc_x50_17: "enc x50 17 (2441940062636486 / 1267650600228229401496703205376) (2441940062636487 / 1267650600228229401496703205376) (3370870492976819573770753059300 / 1267650600228229401496703205376) (3370870492976819573770753059316 / 1267650600228229401496703205376)"
  by (rule enc_step[OF enc_x50_16]) (simp_all add: x50_def)

lemma enc_x50_18: "enc x50 18 (132679523651535 / 1267650600228229401496703205376) (132679523651536 / 1267650600228229401496703205376) (3370870492976822015710815695786 / 1267650600228229401496703205376) (3370870492976822015710815695803 / 1267650600228229401496703205376)"
  by (rule enc_step[OF enc_x50_17]) (simp_all add: x50_def)

lemma enc_x50_19: "enc x50 19 (6829544064132 / 1267650600228229401496703205376) (6829544064133 / 1267650600228229401496703205376) (3370870492976822148390339347321 / 1267650600228229401496703205376) (3370870492976822148390339347339 / 1267650600228229401496703205376)"
  by (rule enc_step[OF enc_x50_18]) (simp_all add: x50_def)

lemma enc_x50_20: "enc x50 20 (333966668693 / 1267650600228229401496703205376) (333966668694 / 1267650600228229401496703205376) (3370870492976822155219883411453 / 1267650600228229401496703205376) (3370870492976822155219883411472 / 1267650600228229401496703205376)"
  by (rule enc_step[OF enc_x50_19]) (simp_all add: x50_def)

lemma enc_x50_21: "enc x50 21 (15553396321 / 1267650600228229401496703205376) (15553396322 / 1267650600228229401496703205376) (3370870492976822155553850080146 / 1267650600228229401496703205376) (3370870492976822155553850080166 / 1267650600228229401496703205376)"
  by (rule enc_step[OF enc_x50_20]) (simp_all add: x50_def)

lemma enc_x50_22: "enc x50 22 (691423229 / 1267650600228229401496703205376) (691423230 / 1267650600228229401496703205376) (3370870492976822155569403476467 / 1267650600228229401496703205376) (3370870492976822155569403476488 / 1267650600228229401496703205376)"
  by (rule enc_step[OF enc_x50_21]) (simp_all add: x50_def)

lemma enc_x50_23: "enc x50 23 (29400691 / 1267650600228229401496703205376) (29400692 / 1267650600228229401496703205376) (3370870492976822155570094899696 / 1267650600228229401496703205376) (3370870492976822155570094899718 / 1267650600228229401496703205376)"
  by (rule enc_step[OF enc_x50_22]) (simp_all add: x50_def)

lemma enc_x50_24: "enc x50 24 (1198085 / 1267650600228229401496703205376) (1198086 / 1267650600228229401496703205376) (3370870492976822155570124300387 / 1267650600228229401496703205376) (3370870492976822155570124300410 / 1267650600228229401496703205376)"
  by (rule enc_step[OF enc_x50_23]) (simp_all add: x50_def)


lemma exp_x50: "(3370870492976822155570124300387 / 1267650600228229401496703205376) \<le> exp x50 \<and> exp x50 \<le> (3370870492976822155570127894668 / 1267650600228229401496703205376)"
proof -
  have x: "0 \<le> x50" "x50 \<le> 1" by (simp_all add: x50_def)
  have e: "sexp x50 24 \<le> exp x50" "exp x50 \<le> sexp x50 24 + 3 * texp x50 24"
    using exp_enclosure[OF x, of 24] by simp_all
  have b: "(3370870492976822155570124300387 / 1267650600228229401496703205376) \<le> sexp x50 24" "sexp x50 24 \<le> (3370870492976822155570124300410 / 1267650600228229401496703205376)" "texp x50 24 \<le> (1198086 / 1267650600228229401496703205376)"
    using enc_x50_24 by (simp_all add: enc_def)
  have "((3370870492976822155570124300387 / 1267650600228229401496703205376)::real) \<le> (3370870492976822155570124300387 / 1267650600228229401496703205376)" by simp
  moreover have "((3370870492976822155570124300410 / 1267650600228229401496703205376)::real) + 3 * (1198086 / 1267650600228229401496703205376) \<le> (3370870492976822155570127894668 / 1267650600228229401496703205376)" by simp
  ultimately show ?thesis using e b by linarith
qed

lemma exp_L50: "(3370870492976822155570124300387 / 1267650600228229401496703205376) ^ 4 \<le> exp L50 \<and> exp L50 \<le> (3370870492976822155570127894668 / 1267650600228229401496703205376) ^ 4"
proof -
  have "L50 = 4 * x50" by (simp add: L50_def x50_def)
  moreover have "exp (of_nat 4 * x50) = exp x50 ^ 4" by (rule exp_of_nat_mult)
  ultimately have e: "exp L50 = exp x50 ^ 4" by simp
  have "(3370870492976822155570124300387 / 1267650600228229401496703205376) ^ 4 \<le> exp x50 ^ 4"
    using exp_x50 by (intro power_mono) simp_all
  moreover have "exp x50 ^ 4 \<le> (3370870492976822155570127894668 / 1267650600228229401496703205376) ^ 4"
    using exp_x50 by (intro power_mono) simp_all
  ultimately show ?thesis unfolding e by simp
qed

lemma exp_L50_window:
  "50 - 3 / 2 / 2 ^ 47 < exp L50" "exp L50 < 50 - 1 / 2 / 2 ^ 47"
  "50 < exp L50 * (1 + 1 / 2 ^ 52)" "exp L50 < 50 * (1 + 1 / 2 ^ 52)"
proof -
  have a: "50 - 3 / 2 / 2 ^ 47 < ((3370870492976822155570124300387 / 1267650600228229401496703205376)::real) ^ 4" by (simp add: power_divide)
  have b: "((3370870492976822155570127894668 / 1267650600228229401496703205376)::real) ^ 4 < 50 - 1 / 2 / 2 ^ 47" by (simp add: power_divide)
  have c: "50 < ((3370870492976822155570124300387 / 1267650600228229401496703205376)::real) ^ 4 * (1 + 1 / 2 ^ 52)" by (simp add: power_divide)
  have d: "((3370870492976822155570127894668 / 1267650600228229401496703205376)::real) ^ 4 < 50 * (1 + 1 / 2 ^ 52)" by (simp add: power_divide)
  show "50 - 3 / 2 / 2 ^ 47 < exp L50" using a exp_L50 by linarith
  show "exp L50 < 50 - 1 / 2 / 2 ^ 47" using b exp_L50 by linarith
  show "exp L50 < 50 * (1 + 1 / 2 ^ 52)" using d exp_L50 by linarith
  have "((3370870492976822155570124300387 / 1267650600228229401496703205376)::real) ^ 4 * (1 + 1 / 2 ^ 52) \<le> exp L50 * (1 + 1 / 2 ^ 52)"
    using exp_L50 by (intro mult_right_mono) simp_all
  then show "50 < exp L50 * (1 + 1 / 2 ^ 52)" using c by linarith
qed

lemma rne_eq:
  assumes "of_int m - 1 / 2 < y" "y < of_int m + 1 / 2"
  shows "rne y = m"
proof (cases "of_int m \<le> y")
  case True
  then have "\<lfloor>y\<rfloor> = m" using assms by linarith
  then show ?thesis using assms by (simp add: rne_def Let_def)
next
  case False
  then have "\<lfloor>y\<rfloor> = m - 1" using assms by linarith
  then show ?thesis using assms False by (simp add: rne_def Let_def)
qed

lemma round64_eval:
  assumes "0 < x" "2 powr of_int e \<le> x" "x < 2 powr (of_int e + 1)"
    and "of_int m - 1 / 2 < x / 2 powr (of_int e - 52)"
    and "x / 2 powr (of_int e - 52) < of_int m + 1 / 2"
  shows "round64 x = of_int m * 2 powr (of_int e - 52)"
proof -
  have "\<lfloor>log 2 \<bar>x\<bar>\<rfloor> = e"
    using assms(1-3) by (simp add: floor_log_eq_powr_iff)
  moreover have "rne (x / 2 powr (of_int e - 52)) = m"
    using assms(4,5) by (rule rne_eq)
  ultimately show ?thesis using assms(1) by (simp add: round64_def Let_def)
qed


lemma ln50_window: "L50 - 1 / 2 ^ 52 < ln 50" "ln 50 < L50 + 1 / 2 ^ 52"
proof -
  let ?h = "1 / 2 ^ 52 :: real"
  have h1: "1 + ?h \<le> exp ?h" by (rule exp_ge_add_one_self)
  have "50 < exp L50 * (1 + ?h)" by (rule exp_L50_window(3))
  also have "\<dots> \<le> exp L50 * exp ?h" using h1 by (intro mult_left_mono) simp_all
  finally have "exp (ln 50) < exp (L50 + ?h)" by (simp add: exp_add)
  then show "ln 50 < L50 + ?h" by (simp only: exp_less_cancel_iff)
  have "exp (L50 - ?h) * (1 + ?h) \<le> exp (L50 - ?h) * exp ?h"
    using h1 by (intro mult_left_mono) simp_all
  also have "\<dots> = exp L50" by (simp add: exp_add[symmetric])
  also have "\<dots> < 50 * (1 + ?h)" by (rule exp_L50_window(4))
  finally have "exp (L50 - ?h) < 50" by simp
  then have "exp (L50 - ?h) < exp (ln 50)" by simp
  then show "L50 - ?h < ln 50" by (simp only: exp_less_cancel_iff)
qed

lemma powr_m51: "(2::real) powr (of_int 1 - 52) = 1 / 2 ^ 51"
proof -
  have "(2::real) powr (of_int 1 - 52) = 2 powr (- 51)" by simp
  also have "\<dots> = 1 / 2 powr 51" by (simp add: powr_minus_divide)
  also have "(2::real) powr 51 = 2 ^ 51" by (rule powr_numeral) simp
  finally show ?thesis .
qed

lemma powr_m47: "(2::real) powr (of_int 5 - 52) = 1 / 2 ^ 47"
proof -
  have "(2::real) powr (of_int 5 - 52) = 2 powr (- 47)" by simp
  also have "\<dots> = 1 / 2 powr 47" by (simp add: powr_minus_divide)
  also have "(2::real) powr 47 = 2 ^ 47" by (rule powr_numeral) simp
  finally show ?thesis .
qed

lemma fl_log_50: "fl_log 50 = L50"
proof -
  have w: "L50 - 1 / 2 ^ 52 < ln 50" "ln 50 < L50 + 1 / 2 ^ 52" by (rule ln50_window)+
  have "round64 (ln 50) = of_int 8809092674755503 * 2 powr (of_int 1 - 52)"
  proof (rule round64_eval)
    show "0 < ln (50::real)" by simp
    show "2 powr of_int 1 \<le> ln (50::real)" using w(1) by (simp add: L50_def)
    show "ln (50::real) < 2 powr (of_int 1 + 1)" using w(2) by (simp add: L50_def)
    show "of_int 8809092674755503 - 1 / 2 < ln (50::real) / 2 powr (of_int 1 - 52)"
      unfolding powr_m51 using w(1) by (simp add: L50_def)
    show "ln (50::real) / 2 powr (of_int 1 - 52) < of_int 8809092674755503 + 1 / 2"
      unfolding powr_m51 using w(2) by (simp add: L50_def)
  qed
  then show ?thesis unfolding powr_m51 by (simp add: fl_log_def L50_def)
qed

lemma fl_exp_L50: "fl_exp L50 = 50 - 1 / 2 ^ 47"
proof -
  have w: "50 - 3 / 2 / 2 ^ 47 < exp L50" "exp L50 < 50 - 1 / 2 / 2 ^ 47"
    by (rule exp_L50_window)+
  have "round64 (exp L50) = of_int 7036874417766399 * 2 powr (of_int 5 - 52)"
  proof (rule round64_eval)
    show "0 < exp L50" by simp
    show "2 powr of_int 5 \<le> exp L50" using w(1) by simp
    show "exp L50 < 2 powr (of_int 5 + 1)" using w(2) by simp
    show "of_int 7036874417766399 - 1 / 2 < exp L50 / 2 powr (of_int 5 - 52)"
      unfolding powr_m47 using w(1) by simp
    show "exp L50 / 2 powr (of_int 5 - 52) < of_int 7036874417766399 + 1 / 2"
      unfolding powr_m47 using w(2) by simp
  qed
  then show ?thesis unfolding powr_m47 by (simp add: fl_exp_def)
qed

section \<open>Properties of the package\<close>

text \<open>
  C1. For a registered market name and curve name, \<open>forward_dynamics\<close> answers
  \<open>F0 * exp(-0.5 * variance)\<close>, where \<open>T\<close> is the last stored maturity of the curve,
  \<open>F0 = get_forward T\<close> and the variance is the sum of the squared factor volatilities
  times \<open>t1 - t0\<close> for a vector \<open>sigma\<close> and \<open>sigma\<^sup>2 * (t1 - t0)\<close> for a scalar one.
  In particular, for a curve built by the constructor (at least two points, positive
  prices, strictly monotonic dates) whose last price is 3.3 and the exponential model
  with \<open>gamma = 0.1\<close>, \<open>k = 0\<close>, the value at \<open>t0 = 0\<close>, \<open>t1 = 1\<close> is
  \<open>3.3 * exp(-0.5 * 0.01 * 1)\<close>. Floats are read as reals.
\<close>

theorem forward_dynamics_formula:
  assumes "map_of (markets s) market_name = Some m"
    and "map_of (curves m) curve_name = Some c"
    and "dates c \<noteq> []"
  shows "forward_dynamics s market_name curve_name t0 t1 =
           (let T = last (dates c);
                variance = (case sigma (vol_model s) t0 T of
                              Vector v \<Rightarrow> sum_list (map (\<lambda>x. x\<^sup>2) v) * (t1 - t0)
                            | Scalar x \<Rightarrow> x\<^sup>2 * (t1 - t0))
            in case get_forward c T of
                 Inl e \<Rightarrow> Inl e
               | Inr F0 \<Rightarrow> Inr (fmul F0 (Some (exp (- 0.5 * variance))))) \<and>
         (vol_model s = ExponentialVolatilityModel 0.1 0 \<and>
          ForwardCurve_init minval (dates c) (prices c) = Inr c \<and>
          2 \<le> length (dates c) \<and> (\<forall>p \<in> set (prices c). 0 < p) \<and>
          (sorted_wrt (<) (dates c) \<or> sorted_wrt (>) (dates c)) \<and>
          last (prices c) = 3.3 \<longrightarrow>
          forward_dynamics s market_name curve_name 0 1 = Inr (Some (3.3 * exp (- 0.5 * 0.01 * 1))))"
proof (intro conjI impI)
  have fd: "forward_dynamics s market_name curve_name u0 u1 =
           (let T = last (dates c);
                variance = (case sigma (vol_model s) u0 T of
                              Vector v \<Rightarrow> sum_list (map (\<lambda>x. x\<^sup>2) v) * (u1 - u0)
                            | Scalar x \<Rightarrow> x\<^sup>2 * (u1 - u0))
            in case get_forward c T of
                 Inl e \<Rightarrow> Inl e
               | Inr F0 \<Rightarrow> Inr (fmul F0 (Some (exp (- 0.5 * variance)))))" for u0 u1
    using assms
    by (simp add: forward_dynamics_def dict_getitem_def get_curve_def py_index_last Let_def
          split: sum.splits)
  show "forward_dynamics s market_name curve_name t0 t1 =
           (let T = last (dates c);
                variance = (case sigma (vol_model s) t0 T of
                              Vector v \<Rightarrow> sum_list (map (\<lambda>x. x\<^sup>2) v) * (t1 - t0)
                            | Scalar x \<Rightarrow> x\<^sup>2 * (t1 - t0))
            in case get_forward c T of
                 Inl e \<Rightarrow> Inl e
               | Inr F0 \<Rightarrow> Inr (fmul F0 (Some (exp (- 0.5 * variance)))))"
    by (rule fd)
  assume h: "vol_model s = ExponentialVolatilityModel 0.1 0 \<and>
          ForwardCurve_init minval (dates c) (prices c) = Inr c \<and>
          2 \<le> length (dates c) \<and> (\<forall>p \<in> set (prices c). 0 < p) \<and>
          (sorted_wrt (<) (dates c) \<or> sorted_wrt (>) (dates c)) \<and>
          last (prices c) = 3.3"
  then have len: "length (prices c) = length (dates c)"
    by (auto simp: ForwardCurve_init_cases split: if_splits)
  let ?n = "length (dates c) - 1"
  have n: "?n < length (dates c)" using assms(3) by simp
  have "get_forward c (dates c ! ?n) = Inr (Some (prices c ! ?n))"
    using h strictly_monotonic_distinct[of "dates c"] n
    by (intro get_forward_knot[of minval]) simp_all
  moreover have "dates c ! ?n = last (dates c)" using assms(3) by (simp add: last_conv_nth)
  moreover have "prices c ! ?n = last (prices c)"
  proof -
    have "prices c \<noteq> []" using len assms(3) by auto
    then show ?thesis using len by (simp add: last_conv_nth)
  qed
  ultimately have F0: "get_forward c (last (dates c)) = Inr (Some 3.3)" using h by simp
  have sq: "(1 / 10 :: real)\<^sup>2 = 1 / 100" by (simp add: power2_eq_square)
  show "forward_dynamics s market_name curve_name 0 1 = Inr (Some (3.3 * exp (- 0.5 * 0.01 * 1)))"
    unfolding fd using h F0 by (simp add: Let_def sq)
qed

theorem forward_dynamics_formula_witness:
  "map_of (markets gas_model) ''Gas'' = Some gas_market \<and>
   map_of (curves gas_market) ''front'' = Some gas_curve \<and>
   dates gas_curve \<noteq> [] \<and>
   ForwardCurve_init 2 (dates gas_curve) (prices gas_curve) = Inr gas_curve \<and>
   forward_dynamics gas_model ''Gas'' ''front'' 0 1 = Inr (Some (3.3 * exp (- 0.5 * 0.01 * 1)))"
proof -
  have a: "map_of (markets gas_model) ''Gas'' = Some gas_market"
    by (simp add: gas_model_def add_market_def HJMModel_init_def gas_market_def
          add_forward_curve_def Market_init_def)
  have b: "map_of (curves gas_market) ''front'' = Some gas_curve"
    by (simp add: gas_market_def add_forward_curve_def Market_init_def)
  have d: "dates gas_curve \<noteq> []" by (simp add: gas_curve_def)
  have e: "ForwardCurve_init 2 (dates gas_curve) (prices gas_curve) = Inr gas_curve"
    by (simp add: ForwardCurve_init_cases gas_curve_def)
  have v: "vol_model gas_model = ExponentialVolatilityModel 0.1 0"
    by (simp add: gas_model_def add_market_def HJMModel_init_def)
  have g: "2 \<le> length (dates gas_curve) \<and> (\<forall>p \<in> set (prices gas_curve). 0 < p) \<and>
          (sorted_wrt (<) (dates gas_curve) \<or> sorted_wrt (>) (dates gas_curve)) \<and>
          last (prices gas_curve) = 3.3"
    by (simp add: gas_curve_def)
  show ?thesis
    using forward_dynamics_formula[OF a b d, of 0 1 2] a b d e v g by blast
qed


lemma gas_model_market: "map_of (markets gas_model) ''Gas'' = Some gas_market"
  by (simp add: gas_model_def add_market_def HJMModel_init_def gas_market_def
        add_forward_curve_def Market_init_def)

lemma gas_market_curve: "map_of (curves gas_market) ''front'' = Some gas_curve"
  by (simp add: gas_market_def add_forward_curve_def Market_init_def)

lemma gas_curve_built:
  "ForwardCurve_init 2 [1, 2, 3, 4, 5] [3, 3.1, 3.05, 3.2, 3.3] = Inr gas_curve"
  by (simp add: ForwardCurve_init_cases gas_curve_def)

text \<open>
  C3, as stated, lets the exponentiated cumulative sum give back the prices. In float64
  it does not: for the stored prices 50, 52, 51 the first reconstructed value is
  \<open>exp(log(50.0))\<close>, which is the double just below 50.
\<close>

theorem reconstruction_rounds:
  "hd (reconstruct64 power_curve) = 50 - 1 / 2 ^ 47 \<and>
   reconstruct64 power_curve \<noteq> prices power_curve"
proof -
  have h: "hd (reconstruct64 power_curve) = 50 - 1 / 2 ^ 47"
    by (simp add: reconstruct64_def fl_cumsum_def power_curve_def fl_log_50 fl_exp_L50)
  moreover have "hd (prices power_curve) = 50" by (simp add: power_curve_def)
  ultimately have "hd (reconstruct64 power_curve) \<noteq> hd (prices power_curve)" by simp
  then show ?thesis using h by auto
qed

text \<open>
  C3, amended. For a curve with at least two points and positive prices, \<open>log_returns\<close>
  has one element fewer than \<open>prices\<close> and its \<open>i\<close>-th element is
  \<open>log(prices[i+1]) - log(prices[i])\<close> in stored order; exponentiating the cumulative
  sum of the returns prepended with \<open>log(prices[0])\<close> gives back the prices in real
  arithmetic, so in float64 to rounding tolerance and not bit for bit.
\<close>

theorem log_returns_reconstruct:
  assumes "2 \<le> length (prices c)" and "\<forall>p \<in> set (prices c). 0 < p"
  shows "length (log_returns c) = length (prices c) - 1 \<and>
         (\<forall>i. Suc i < length (prices c) \<longrightarrow>
              log_returns c ! i = Some (ln (prices c ! Suc i) - ln (prices c ! i))) \<and>
         map np_exp (np_cumsum (np_log (prices c ! 0) # log_returns c)) = map Some (prices c)"
proof (intro conjI allI impI)
  show "length (log_returns c) = length (prices c) - 1"
    by (simp add: log_returns_def length_np_diff)
  obtain q ps where qp: "prices c = q # ps" using assms(1) by (cases "prices c") auto
  have "np_exp (np_log q) = Some q" using assms(2) qp by (simp add: np_log_def np_exp_def)
  then show "map np_exp (np_cumsum (np_log (prices c ! 0) # log_returns c)) = map Some (prices c)"
    using cumsum_diff[of q ps] assms(2) qp by (simp add: np_cumsum_def log_returns_def)
  fix i assume i: "Suc i < length (prices c)"
  then have "0 < prices c ! i" "0 < prices c ! Suc i" using assms(2) by (simp_all add: nth_mem)
  then show "log_returns c ! i = Some (ln (prices c ! Suc i) - ln (prices c ! i))"
    using i by (simp add: log_returns_def np_diff_nth np_log_def)
qed

theorem log_returns_reconstruct_witness:
  "2 \<le> length (prices power_curve) \<and>
   prices power_curve = [50, 52, 51] \<and> (0::real) < 50 \<and> (0::real) < 52 \<and> (0::real) < 51 \<and>
   log_returns power_curve = [Some (ln 52 - ln 50), Some (ln 51 - ln 52)] \<and>
   map np_exp (np_cumsum (np_log (prices power_curve ! 0) # log_returns power_curve))
     = [Some 50, Some 52, Some 51]"
proof -
  have a: "2 \<le> length (prices power_curve)" by (simp add: power_curve_def)
  have b: "\<forall>p \<in> set (prices power_curve). 0 < p" by (simp add: power_curve_def)
  have c: "log_returns power_curve = [Some (ln 52 - ln 50), Some (ln 51 - ln 52)]"
    by (simp add: log_returns_def power_curve_def np_diff_def np_log_def)
  have d: "map Some (prices power_curve) = [Some 50, Some 52, Some 51]"
    by (simp add: power_curve_def)
  have e: "prices power_curve = [50, 52, 51]" by (simp add: power_curve_def)
  show ?thesis using log_returns_reconstruct[OF a b] a c d e by simp
qed

text \<open>
  C4. For at least two points, positive prices and strictly increasing or strictly
  decreasing dates, the constructor builds the curve and \<open>get_forward\<close> at the stored
  maturity \<open>dates[i]\<close> answers the stored price \<open>prices[i]\<close>: the log-linear
  interpolant is exact at its knots. On reals the equality is exact.
\<close>

theorem get_forward_exact_at_knots:
  assumes "minval \<le> 2" and "2 \<le> length ds" and "length ps = length ds"
    and "\<forall>p \<in> set ps. 0 < p"
    and "sorted_wrt (<) ds \<or> sorted_wrt (>) ds"
    and "i < length ds"
  shows "\<exists>c. ForwardCurve_init minval ds ps = Inr c \<and> dates c = ds \<and> prices c = ps \<and>
             get_forward c (dates c ! i) = Inr (Some (prices c ! i))"
proof -
  obtain c where c: "ForwardCurve_init minval ds ps = Inr c" "dates c = ds" "prices c = ps"
    using assms(1-3) by (simp add: ForwardCurve_init_cases)
  moreover have "get_forward c (ds ! i) = Inr (Some (ps ! i))"
    using c(1) assms(2,4) strictly_monotonic_distinct[OF assms(5)] assms(6)
    by (rule get_forward_knot)
  ultimately show ?thesis by simp
qed

theorem get_forward_exact_at_knots_witness:
  "(2::nat) \<le> 2 \<and> 2 \<le> length [1, 2, 3, 4, 5 :: real] \<and>
   sorted_wrt (<) [1, 2, 3, 4, 5 :: real] \<and>
   get_forward gas_curve 3 = Inr (Some 3.05)"
proof -
  have "\<exists>c. ForwardCurve_init 2 [1, 2, 3, 4, 5] [3, 3.1, 3.05, 3.2, 3.3] = Inr c \<and>
            dates c = [1, 2, 3, 4, 5] \<and> prices c = [3, 3.1, 3.05, 3.2, 3.3] \<and>
            get_forward c (dates c ! 2) = Inr (Some (prices c ! 2))"
    by (rule get_forward_exact_at_knots) simp_all
  then have "get_forward gas_curve 3 = Inr (Some 3.05)"
    unfolding gas_curve_built by auto
  then show ?thesis by simp
qed

text \<open>
  C5, as stated, promises a curve for every pair \<open>(start, end)\<close>. A range that holds no
  stored date makes the constructor raise, whichever bound the interpolant has.
\<close>

theorem slice_empty_range_raises:
  "slice 1 gas_curve 10 20 = Inl ValueError \<and> slice 2 gas_curve 10 20 = Inl ValueError"
  by (simp add: slice_def bool_index_def gas_curve_def ForwardCurve_init_cases)

text \<open>
  C5, amended. For a curve with as many prices as dates: when the inclusive range
  \<open>[start, end]\<close> holds at least as many stored dates as the interpolant needs,
  \<open>slice\<close> answers a new curve whose dates are exactly the stored dates in the range,
  in stored order, paired with their prices; when it holds fewer, \<open>slice\<close> raises
  ValueError. The source curve is an argument that \<open>slice\<close> only reads.
\<close>

theorem slice_result:
  assumes len: "length (prices c) = length (dates c)"
  shows "(length (filter (\<lambda>d. start \<le> d \<and> d \<le> stop) (dates c)) < minval \<longrightarrow>
            slice minval c start stop = Inl ValueError) \<and>
         (minval \<le> length (filter (\<lambda>d. start \<le> d \<and> d \<le> stop) (dates c)) \<longrightarrow>
            (\<exists>c'. slice minval c start stop = Inr c' \<and>
                  dates c' = filter (\<lambda>d. start \<le> d \<and> d \<le> stop) (dates c) \<and>
                  zip (dates c') (prices c') =
                    filter (\<lambda>(d, p). start \<le> d \<and> d \<le> stop) (zip (dates c) (prices c))))"
proof -
  let ?P = "\<lambda>d. start \<le> d \<and> d \<le> stop"
  let ?sel = "filter (\<lambda>(d, p). ?P d) (zip (dates c) (prices c))"
  have ds: "map fst ?sel = filter ?P (dates c)"
    using len by (rule map_fst_filter_zip)
  have sl: "slice minval c start stop = ForwardCurve_init minval (map fst ?sel) (map snd ?sel)"
    using len by (simp add: slice_def Let_def bool_index_self bool_index_other ds)
  have z: "zip (map fst ?sel) (map snd ?sel) = ?sel"
    by (rule zip_map_fst_snd)
  show ?thesis
    unfolding sl ForwardCurve_init_cases
    using z length_filter_zip_fst[OF len, of ?P] by (simp add: ds)
qed

theorem slice_result_witness:
  "length (prices gas_curve) = length (dates gas_curve) \<and>
   (2::nat) \<le> length (filter (\<lambda>d. 2 \<le> d \<and> d \<le> 4) (dates gas_curve)) \<and>
   (\<exists>c'. slice 2 gas_curve 2 4 = Inr c' \<and> dates c' = [2, 3, 4] \<and>
         zip (dates c') (prices c') = [(2, 3.1), (3, 3.05), (4, 3.2)]) \<and>
   length (filter (\<lambda>d. 5 \<le> d \<and> d \<le> 9) (dates gas_curve)) < (2::nat) \<and>
   slice 2 gas_curve 5 9 = Inl ValueError"
proof -
  have a: "length (prices gas_curve) = length (dates gas_curve)" by (simp add: gas_curve_def)
  have f1: "filter (\<lambda>d. 2 \<le> d \<and> d \<le> 4) (dates gas_curve) = [2, 3, 4]"
    by (simp add: gas_curve_def)
  have z1: "filter (\<lambda>(d, p). 2 \<le> d \<and> d \<le> 4) (zip (dates gas_curve) (prices gas_curve))
              = [(2, 3.1), (3, 3.05), (4, 3.2)]"
    by (simp add: gas_curve_def)
  have f2: "filter (\<lambda>d. 5 \<le> d \<and> d \<le> 9) (dates gas_curve) = [5]"
    by (simp add: gas_curve_def)
  show ?thesis
    using slice_result[OF a, of 2 4 2] slice_result[OF a, of 5 9 2] a
    unfolding f1 z1 f2 by simp
qed


lemma two_market_markets:
  "markets two_market_model = [(''Gas'', gas_market), (''Power'', power_market)]"
  by (simp add: two_market_model_def add_market_def HJMModel_init_def gas_market_def
        power_market_def add_forward_curve_def Market_init_def)

lemma power_market_curves: "curves power_market = [(''cal'', power_curve), (''spot'', spot_curve)]"
  by (simp add: power_market_def add_forward_curve_def Market_init_def)

lemma gas_market_curves: "curves gas_market = [(''front'', gas_curve)]"
  by (simp add: gas_market_def add_forward_curve_def Market_init_def)

text \<open>
  C6. For a registered market name and curve name, \<open>price_forward\<close> answers the curve's
  \<open>get_forward\<close> at the curve's last stored maturity, and the answer is the same for
  every value of the argument \<open>t\<close>, which the function never reads.
\<close>

theorem price_forward_terminal:
  assumes "map_of (markets s) market_name = Some m"
    and "map_of (curves m) curve_name = Some c"
    and "dates c \<noteq> []"
  shows "price_forward s market_name curve_name t = get_forward c (last (dates c)) \<and>
         price_forward s market_name curve_name t = price_forward s market_name curve_name t'"
  using assms
  by (simp add: price_forward_def dict_getitem_def get_curve_def py_index_last)

theorem price_forward_terminal_witness:
  "map_of (markets gas_model) ''Gas'' = Some gas_market \<and>
   map_of (curves gas_market) ''front'' = Some gas_curve \<and>
   dates gas_curve \<noteq> [] \<and>
   price_forward gas_model ''Gas'' ''front'' 0 = Inr (Some 3.3) \<and>
   price_forward gas_model ''Gas'' ''front'' 0 = price_forward gas_model ''Gas'' ''front'' 7"
proof -
  have d: "dates gas_curve \<noteq> []" by (simp add: gas_curve_def)
  have "get_forward gas_curve (dates gas_curve ! 4) = Inr (Some (prices gas_curve ! 4))"
    using gas_curve_built
    by (intro get_forward_knot[of 2 "dates gas_curve" "prices gas_curve"])
       (simp_all add: gas_curve_def)
  then have g: "get_forward gas_curve (last (dates gas_curve)) = Inr (Some 3.3)"
    by (simp add: gas_curve_def)
  show ?thesis
    using price_forward_terminal[OF gas_model_market gas_market_curve d, of 0 7]
      gas_model_market gas_market_curve d g by auto
qed

text \<open>
  C7, as stated, lets every unknown name surface as a key-lookup failure. An unknown
  curve name in a registered market does not: \<open>get_curve\<close> answers \<open>None\<close> and the
  failure is the attribute access on it.
\<close>

theorem unknown_curve_not_key_error:
  "forward_dynamics gas_model ''Gas'' ''back'' 0 1 = Inl AttributeError \<and>
   forward_dynamics gas_model ''Gas'' ''back'' 0 1 \<noteq> Inl KeyError \<and>
   price_forward gas_model ''Gas'' ''back'' 0 = Inl AttributeError \<and>
   price_forward gas_model ''Gas'' ''back'' 0 \<noteq> Inl KeyError"
  by (simp add: forward_dynamics_def price_forward_def dict_getitem_def get_curve_def
        gas_model_market gas_market_curves)

text \<open>
  C7, amended. \<open>forward_dynamics\<close> and \<open>price_forward\<close> raise for a name that is not
  registered: an unknown market name surfaces as KeyError from the market mapping, and
  an unknown curve name in a registered market surfaces as AttributeError, raised when
  the absent curve that \<open>get_curve\<close> answered is dereferenced.
\<close>

theorem unknown_name_raises:
  "(map_of (markets s) market_name = None \<longrightarrow>
      forward_dynamics s market_name curve_name t0 t1 = Inl KeyError \<and>
      price_forward s market_name curve_name t = Inl KeyError) \<and>
   (\<forall>m. map_of (markets s) market_name = Some m \<and> map_of (curves m) curve_name = None \<longrightarrow>
      forward_dynamics s market_name curve_name t0 t1 = Inl AttributeError \<and>
      price_forward s market_name curve_name t = Inl AttributeError)"
  by (simp add: price_forward_def forward_dynamics_def dict_getitem_def get_curve_def)

theorem unknown_name_raises_witness:
  "map_of (markets gas_model) ''Oil'' = None \<and>
   forward_dynamics gas_model ''Oil'' ''front'' 0 1 = Inl KeyError \<and>
   price_forward gas_model ''Oil'' ''front'' 0 = Inl KeyError \<and>
   map_of (markets gas_model) ''Gas'' = Some gas_market \<and>
   map_of (curves gas_market) ''back'' = None \<and>
   forward_dynamics gas_model ''Gas'' ''back'' 0 1 = Inl AttributeError \<and>
   price_forward gas_model ''Gas'' ''back'' 0 = Inl AttributeError"
proof -
  have a: "map_of (markets gas_model) ''Oil'' = None"
    by (simp add: gas_model_def add_market_def HJMModel_init_def gas_market_def
          add_forward_curve_def Market_init_def)
  have b: "map_of (curves gas_market) ''back'' = None"
    by (simp add: gas_market_curves)
  show ?thesis
    using unknown_name_raises[of gas_model "''Oil''" "''front''" 0 1 0]
      unknown_name_raises[of gas_model "''Gas''" "''back''" 0 1 0]
      a b gas_model_market by simp
qed

text \<open>
  C8. For a multi-factor model with \<open>n_factors\<close> factors (a count, so not negative),
  \<open>sigma(t, T)\<close> is a vector of length \<open>n_factors\<close> whose every component is
  \<open>exp(-0.5 * (T - t))\<close>, and calibrating on any matrix, whether the analysis answers or
  raises, leaves \<open>sigma(t, T)\<close> as it was: the fitted components and explained
  variance are not read.
\<close>

theorem multifactor_sigma_decoupled:
  assumes "0 \<le> n"
  shows "(\<exists>v. sigma (MultiFactorVolatilityModel n cs ev) t T = Vector v \<and>
              int (length v) = n \<and> (\<forall>x \<in> set v. x = exp (- 0.5 * (T - t)))) \<and>
         sigma (snd (calibrate_1 fit (MultiFactorVolatilityModel n cs ev) log_return_matrix)) t T
           = sigma (MultiFactorVolatilityModel n cs ev) t T"
  using assms by (auto simp: Let_def split: sum.splits prod.splits)

theorem multifactor_sigma_decoupled_witness:
  "(0::int) \<le> 2 \<and>
   sigma (MultiFactorVolatilityModel_init 2) 0 5 = Vector [exp (- 0.5 * 5), exp (- 0.5 * 5)] \<and>
   snd (calibrate_1 flat_pca (MultiFactorVolatilityModel_init 2) [[Some 1, Some 2]])
     = MultiFactorVolatilityModel 2 (Some [[1, 0], [0, 1]]) (Some [0.75, 0.25]) \<and>
   sigma (snd (calibrate_1 flat_pca (MultiFactorVolatilityModel_init 2) [[Some 1, Some 2]])) 0 5
     = sigma (MultiFactorVolatilityModel_init 2) 0 5"
proof -
  have r: "replicate 2 x = [x, x]" for x :: real
    by (simp add: numeral_2_eq_2)
  have a: "sigma (MultiFactorVolatilityModel_init 2) 0 5 = Vector [exp (- 0.5 * 5), exp (- 0.5 * 5)]"
    by (simp add: MultiFactorVolatilityModel_init_def r)
  have b: "snd (calibrate_1 flat_pca (MultiFactorVolatilityModel_init 2) [[Some 1, Some 2]])
     = MultiFactorVolatilityModel 2 (Some [[1, 0], [0, 1]]) (Some [0.75, 0.25])"
    by (simp add: MultiFactorVolatilityModel_init_def flat_pca_def)
  show ?thesis
    using multifactor_sigma_decoupled[of 2 None None 0 5 flat_pca "[[Some 1, Some 2]]"] a b
    by (simp add: MultiFactorVolatilityModel_init_def)
qed

text \<open>
  C10. Whether \<open>calibrate\<close> succeeds or raises, the market mapping of the model, and
  with it every market's curve mapping and every curve's dates and prices, is unchanged;
  the only change is in the fitted parameters of a multi-factor volatility model.
\<close>

theorem calibrate_frame:
  "markets (snd (calibrate fit s)) = markets s \<and>
   (case vol_model s of
      ExponentialVolatilityModel g kk \<Rightarrow> vol_model (snd (calibrate fit s)) = vol_model s
    | MultiFactorVolatilityModel n cs ev \<Rightarrow>
        (\<exists>cs' ev'. vol_model (snd (calibrate fit s)) = MultiFactorVolatilityModel n cs' ev'))"
  by (cases "vol_model s") (auto simp: calibrate_def split: sum.splits prod.splits)

theorem calibrate_frame_witness:
  "markets (snd (calibrate flat_pca two_market_model)) = markets two_market_model \<and>
   markets (snd (calibrate failing_pca two_market_model)) = markets two_market_model \<and>
   markets (snd (calibrate flat_pca gas_model)) = markets gas_model \<and>
   fst (calibrate flat_pca gas_model) = Some TypeError \<and>
   vol_model (snd (calibrate flat_pca gas_model)) = vol_model gas_model"
proof -
  have v: "vol_model gas_model = ExponentialVolatilityModel 0.1 0"
    by (simp add: gas_model_def add_market_def HJMModel_init_def)
  have m: "markets gas_model = [(''Gas'', gas_market)]"
    by (simp add: gas_model_def add_market_def HJMModel_init_def gas_market_def
        add_forward_curve_def Market_init_def)
  have cr: "collect_returns gas_model = [log_returns gas_curve]"
    by (simp add: collect_returns_def dict_values_def m gas_market_curves gas_curve_def)
  have "length (log_returns gas_curve) = 4"
    by (simp add: log_returns_def length_np_diff gas_curve_def)
  then have "\<exists>M. calibration_matrix gas_model = Inr M"
    by (simp add: calibration_matrix_def cr py_min_def column_stack_def)
  then have e: "fst (calibrate flat_pca gas_model) = Some TypeError"
    by (auto simp: calibrate_def v)
  show ?thesis
    using calibrate_frame[of flat_pca two_market_model]
      calibrate_frame[of failing_pca two_market_model]
      calibrate_frame[of flat_pca gas_model] v e by simp
qed


lemma gas_returns:
  "log_returns gas_curve =
     [Some (ln 3.1 - ln 3), Some (ln 3.05 - ln 3.1), Some (ln 3.2 - ln 3.05), Some (ln 3.3 - ln 3.2)]"
  by (simp add: log_returns_def gas_curve_def np_diff_def np_log_def)

lemma power_returns:
  "log_returns power_curve = [Some (ln 52 - ln 50), Some (ln 51 - ln 52)]"
  by (simp add: log_returns_def power_curve_def np_diff_def np_log_def)

lemma two_market_returns:
  "collect_returns two_market_model = [log_returns gas_curve, log_returns power_curve]"
  by (simp add: collect_returns_def dict_values_def two_market_markets gas_market_curves
        power_market_curves gas_curve_def power_curve_def spot_curve_def)

text \<open>
  C2. \<open>calibrate\<close> collects \<open>log_returns\<close> from exactly the curves, over all held
  markets in iteration order, that have at least two stored points. With no such curve
  it raises ValueError and changes nothing. Otherwise every collected sequence is cut
  to the minimum length found, which is at least 1, by keeping its trailing segment of
  that length; the cut sequences are the columns of one matrix (one row per
  observation), and that matrix is what the volatility model's \<open>calibrate\<close> receives.
\<close>

theorem calibrate_alignment:
  "collect_returns s =
     map log_returns (filter (\<lambda>c. 2 \<le> length (prices c))
       (concat (map (\<lambda>m. dict_values (curves m)) (dict_values (markets s))))) \<and>
   (collect_returns s = [] \<longrightarrow> calibrate fit s = (Some ValueError, s)) \<and>
   (collect_returns s \<noteq> [] \<longrightarrow>
      (let rs = collect_returns s; min_len = Min (length ` set rs) in
       \<exists>M. calibration_matrix s = Inr M \<and>
           calibrate fit s = (fst (calibrate_1 fit (vol_model s) M),
                              s\<lparr>vol_model := snd (calibrate_1 fit (vol_model s) M)\<rparr>) \<and>
           1 \<le> min_len \<and> length M = min_len \<and>
           (\<forall>row \<in> set M. length row = length rs) \<and>
           (\<forall>j < length rs. min_len \<le> length (rs ! j) \<and>
                map (\<lambda>row. row ! j) M = drop (length (rs ! j) - min_len) (rs ! j))))"
proof (intro conjI impI)
  show "collect_returns s =
     map log_returns (filter (\<lambda>c. 2 \<le> length (prices c))
       (concat (map (\<lambda>m. dict_values (curves m)) (dict_values (markets s)))))"
    by (rule collect_returns_eq)
  show "calibrate fit s = (Some ValueError, s)" if "collect_returns s = []"
    using that by (simp add: calibrate_def calibration_matrix_def py_min_def)
next
  assume ne: "collect_returns s \<noteq> []"
  define rs where "rs = collect_returns s"
  define n where "n = Min (length ` set rs)"
  define cols where "cols = map (py_slice_from (- int n)) rs"
  define M where "M = map (\<lambda>i. map (\<lambda>col. col ! i) cols) [0..<n]"
  have rne: "rs \<noteq> []" using ne rs_def by simp
  have n_le: "n \<le> length r" if "r \<in> set rs" for r
    using that by (simp add: n_def)
  have "n \<in> length ` set rs" unfolding n_def using rne by (intro Min_in) auto
  then have n1: "1 \<le> n" using collect_returns_nonempty[of _ s] by (auto simp: rs_def)
  have sl: "py_slice_from (- int n) r = drop (length r - n) r" if "r \<in> set rs" for r
    using n1 n_le[OF that] by (rule py_slice_trailing)
  have collen: "\<forall>c \<in> set cols. length c = n"
    using sl n_le by (auto simp: cols_def)
  have cne: "cols \<noteq> []" using rne by (simp add: cols_def)
  have mn: "py_min (map length rs) = Inr n"
    using rne by (simp add: py_min_Min n_def)
  have cm: "calibration_matrix s = Inr M"
    unfolding calibration_matrix_def Let_def rs_def[symmetric] mn
    using column_stack_equal[OF cne collen] by (simp add: cols_def M_def)
  have cal: "calibrate fit s = (fst (calibrate_1 fit (vol_model s) M),
                              s\<lparr>vol_model := snd (calibrate_1 fit (vol_model s) M)\<rparr>)"
    by (simp add: calibrate_def cm split: prod.splits)
  have rows: "\<forall>row \<in> set M. length row = length rs"
    by (auto simp: M_def cols_def)
  have colj: "n \<le> length (rs ! j) \<and> map (\<lambda>row. row ! j) M = drop (length (rs ! j) - n) (rs ! j)"
    if "j < length rs" for j
  proof -
    have j: "j < length cols" using that by (simp add: cols_def)
    have mem: "rs ! j \<in> set rs" using that by simp
    have "length (cols ! j) = n" using collen j by simp
    then have "map (\<lambda>row. row ! j) M = cols ! j"
      unfolding M_def using j by (intro column_of_stack)
    also have "\<dots> = drop (length (rs ! j) - n) (rs ! j)"
      using that sl[OF mem] by (simp add: cols_def)
    finally show ?thesis using n_le[OF mem] by simp
  qed
  show "let rs = collect_returns s; min_len = Min (length ` set rs) in
       \<exists>M. calibration_matrix s = Inr M \<and>
           calibrate fit s = (fst (calibrate_1 fit (vol_model s) M),
                              s\<lparr>vol_model := snd (calibrate_1 fit (vol_model s) M)\<rparr>) \<and>
           1 \<le> min_len \<and> length M = min_len \<and>
           (\<forall>row \<in> set M. length row = length rs) \<and>
           (\<forall>j < length rs. min_len \<le> length (rs ! j) \<and>
                map (\<lambda>row. row ! j) M = drop (length (rs ! j) - min_len) (rs ! j))"
    unfolding Let_def rs_def[symmetric] n_def[symmetric]
    using cm cal n1 rows colj by (intro exI[of _ M]) (simp add: M_def)
qed


theorem calibrate_alignment_witness:
  "collect_returns two_market_model = [log_returns gas_curve, log_returns power_curve] \<and>
   collect_returns two_market_model \<noteq> [] \<and>
   (\<exists>M. calibration_matrix two_market_model = Inr M \<and> length M = 2 \<and>
        map (\<lambda>row. row ! 0) M = [Some (ln 3.2 - ln 3.05), Some (ln 3.3 - ln 3.2)] \<and>
        map (\<lambda>row. row ! 1) M = [Some (ln 52 - ln 50), Some (ln 51 - ln 52)] \<and>
        calibrate flat_pca two_market_model =
          (None, two_market_model\<lparr>vol_model :=
             MultiFactorVolatilityModel 2 (Some [[1, 0], [0, 1]]) (Some [0.75, 0.25])\<rparr>)) \<and>
   collect_returns (HJMModel_init (MultiFactorVolatilityModel_init 2)) = [] \<and>
   calibrate flat_pca (HJMModel_init (MultiFactorVolatilityModel_init 2))
     = (Some ValueError, HJMModel_init (MultiFactorVolatilityModel_init 2))"
proof -
  let ?e = "HJMModel_init (MultiFactorVolatilityModel_init 2)"
  have ne: "collect_returns two_market_model \<noteq> []" by (simp add: two_market_returns)
  have mn: "Min (length ` set (collect_returns two_market_model)) = 2"
    by (simp add: two_market_returns gas_returns power_returns)
  have vm: "vol_model two_market_model = MultiFactorVolatilityModel 2 None None"
    by (simp add: two_market_model_def add_market_def HJMModel_init_def
          MultiFactorVolatilityModel_init_def)
  have em: "collect_returns ?e = []"
    by (simp add: collect_returns_def HJMModel_init_def dict_values_def)
  have fp: "calibrate_1 flat_pca (MultiFactorVolatilityModel 2 None None) M
              = (None, MultiFactorVolatilityModel 2 (Some [[1, 0], [0, 1]]) (Some [0.75, 0.25]))" for M
    by (simp add: flat_pca_def)
  have l2: "[0..<2] = [0, Suc 0]" by (simp add: upt_rec)
  from calibrate_alignment[of two_market_model flat_pca] ne
  have "\<exists>M. calibration_matrix two_market_model = Inr M \<and>
           calibrate flat_pca two_market_model =
             (fst (calibrate_1 flat_pca (vol_model two_market_model) M),
              two_market_model\<lparr>vol_model := snd (calibrate_1 flat_pca (vol_model two_market_model) M)\<rparr>) \<and>
           length M = 2 \<and>
           (\<forall>j < 2. map (\<lambda>row. row ! j) M =
               drop (length (collect_returns two_market_model ! j) - 2)
                    (collect_returns two_market_model ! j))"
    unfolding Let_def mn by (auto simp: two_market_returns)
  then obtain M where M: "calibration_matrix two_market_model = Inr M"
      "calibrate flat_pca two_market_model =
             (fst (calibrate_1 flat_pca (vol_model two_market_model) M),
              two_market_model\<lparr>vol_model := snd (calibrate_1 flat_pca (vol_model two_market_model) M)\<rparr>)"
      "length M = 2"
      "map (\<lambda>row. row ! 0) M = drop (length (collect_returns two_market_model ! 0) - 2)
                    (collect_returns two_market_model ! 0)"
      "map (\<lambda>row. row ! 1) M = drop (length (collect_returns two_market_model ! 1) - 2)
                    (collect_returns two_market_model ! 1)"
    by auto
  have c0: "map (\<lambda>row. row ! 0) M = [Some (ln 3.2 - ln 3.05), Some (ln 3.3 - ln 3.2)]"
    using M(4) by (simp add: two_market_returns gas_returns)
  have c1: "map (\<lambda>row. row ! 1) M = [Some (ln 52 - ln 50), Some (ln 51 - ln 52)]"
    using M(5) by (simp add: two_market_returns power_returns)
  have cal: "calibrate flat_pca two_market_model =
          (None, two_market_model\<lparr>vol_model :=
             MultiFactorVolatilityModel 2 (Some [[1, 0], [0, 1]]) (Some [0.75, 0.25])\<rparr>)"
    using M(2) unfolding vm fp by simp
  have ee: "calibrate flat_pca ?e = (Some ValueError, ?e)"
    using calibrate_alignment[of ?e flat_pca] em by simp
  have ex: "\<exists>M. calibration_matrix two_market_model = Inr M \<and> length M = 2 \<and>
        map (\<lambda>row. row ! 0) M = [Some (ln 3.2 - ln 3.05), Some (ln 3.3 - ln 3.2)] \<and>
        map (\<lambda>row. row ! 1) M = [Some (ln 52 - ln 50), Some (ln 51 - ln 52)] \<and>
        calibrate flat_pca two_market_model =
          (None, two_market_model\<lparr>vol_model :=
             MultiFactorVolatilityModel 2 (Some [[1, 0], [0, 1]]) (Some [0.75, 0.25])\<rparr>)"
    by (intro exI[of _ M] conjI) (rule M(1) M(3) c0 c1 cal)+
  show ?thesis
    by (intro conjI) (rule two_market_returns ne ex em ee)+
qed


end
